theory Spec2Isabelle
  imports Complex_Main "HOL-Library.Word"
begin

section \<open>The RGB-D camera sensor (src/src/RgbdCameraSensor.cc)\<close>

text \<open>
  The sensor is a C++ object whose private data sit in \<open>RgbdCameraSensorPrivate\<close>.
  Member functions become functions from the object's state to a result and the new
  state. What a member function does to the outside (a line on \<open>ignerr\<close>, a message
  handed to a publisher, a call into the rendering engine or into a base class) is
  appended to a trace, the field \<open>events\<close>, in program order.

  Conventions: \<open>unsigned int\<close> is \<open>32 word\<close>; a \<open>double\<close> is read as a real number
  (no theorem below depends on rounding); a pointer that may be null is an
  \<open>option\<close>; the mutex is left out (one thread of control).
\<close>

subsection \<open>Collaborators: the descriptor, transport, rendering\<close>

text \<open>
  \<open>sdf::SensorType\<close> belongs to the descriptor library. The sensor names only
  \<open>RGBD_CAMERA\<close>; the other enumerators listed stand for every other kind.
\<close>

datatype SensorType =
    ALTIMETER | CAMERA | DEPTH_CAMERA | LIDAR | RGBD_CAMERA | THERMAL_CAMERA

record sdf_Camera =
  ImageWidth :: "32 word"
  ImageHeight :: "32 word"
  NearClip :: real
  FarClip :: real
  HorizontalFov :: real

record sdf_Sensor =
  Type :: SensorType
  TypeStr :: string
  CameraSensor :: "sdf_Camera option"

record Time =
  sec :: int
  nsec :: int

text \<open>\<open>transport::Node::Publisher\<close>: \<open>Valid\<close> is its \<open>operator bool\<close>.\<close>

record Publisher =
  Valid :: bool
  HasConnections :: bool
  PubTopic :: string

datatype PixelFormat = R_FLOAT32 | RGB_INT8

datatype DataSource = DepthBuffer | ImageData

record msgs_Image =
  im_width :: "32 word"
  im_height :: "32 word"
  im_step :: "32 word"
  im_pixel_format :: PixelFormat
  im_stamp :: Time
  im_frame_id :: string
  im_data :: DataSource
  im_data_size :: "32 word"

record msgs_PointCloudPacked =
  pc_frame_id :: string
  pc_point_step :: "32 word"
  pc_width :: "32 word"
  pc_height :: "32 word"
  pc_row_step :: "32 word"
  pc_stamp :: Time
  pc_is_dense :: bool
  pc_filled :: bool

record DepthCamera =
  camImageWidth :: "32 word"
  camImageHeight :: "32 word"
  camNearClip :: real
  camFarClip :: real
  camAntiAliasing :: nat
  camAspectRatio :: "real option"
  camHFOV :: "real option"
  camDepthTexture :: bool
  camInScene :: bool

record rendering_Image =
  imgWidth :: "32 word"
  imgHeight :: "32 word"
  imgFilled :: bool

text \<open>A piece of a line written with \<open><<\<close>: a literal or a number.\<close>

datatype Frag = S string | D real

datatype Event =
    Err "Frag list"
  | PublishImage string msgs_Image
  | PublishPoints string msgs_PointCloudPacked
  | Render
  | PublishInfo Time
  | PopulateInfo sdf_Camera
  | AddSensor DepthCamera
  | ConnectSceneChangeCallback

text \<open>
  What the base classes (\<open>Sensor\<close>, \<open>RenderingSensor\<close>, \<open>CameraSensor\<close>) keep and the
  sensor reads: its name, its topic and the scene (a scene is named by a number).
\<close>

record Sensor =
  Name :: string
  Topic :: string
  Scene :: "nat option"

text \<open>
  The calls whose code is outside this file, taken as parameters: the base class's
  \<open>Sensor::Load\<close> (it may change the base part only), \<open>Node::Advertise\<close>,
  \<open>CameraSensor::AdvertiseInfo\<close>, \<open>msgs::InitPointCloudPacked\<close> and
  \<open>Scene::CreateDepthCamera\<close>.
\<close>

record Env =
  Sensor_Load :: "sdf_Sensor \<Rightarrow> Sensor \<Rightarrow> bool \<times> Sensor"
  Advertise :: "string \<Rightarrow> Publisher"
  AdvertiseInfo :: "string \<Rightarrow> bool"
  InitPointCloudPacked :: "string \<Rightarrow> msgs_PointCloudPacked"
  CreateDepthCamera :: "string \<Rightarrow> DepthCamera"

subsection \<open>The object\<close>

text \<open>
  The fields of \<open>RgbdCameraSensorPrivate\<close> (lines 36-108), after the base part and
  before the trace. \<open>sdfSensor\<close> is \<open>None\<close> until \<open>Load\<close> stores the descriptor: the
  default-constructed \<open>sdf::Sensor\<close> has no camera element. The two buffers are filled
  by the rendering callbacks (lines 301-346), which are not modelled: an operation is
  stated for every content of the buffers.
\<close>

record RgbdCameraSensor =
  base :: Sensor
  imagePub :: Publisher
  depthPub :: Publisher
  pointPub :: Publisher
  initialized :: bool
  depthCamera :: "DepthCamera option"
  depthBuffer :: "32 word list option"
  pointCloudBuffer :: "32 word list option"
  image_rgb :: rendering_Image
  depthConnection :: bool
  pointCloudConnection :: bool
  sceneChangeConnection :: bool
  sdfSensor :: "sdf_Sensor option"
  pointMsg :: msgs_PointCloudPacked
  events :: "Event list"

definition emit :: "Event \<Rightarrow> RgbdCameraSensor \<Rightarrow> RgbdCameraSensor" where
  "emit e s = s\<lparr>events := events s @ [e]\<rparr>"

definition ignerr :: "Frag list \<Rightarrow> RgbdCameraSensor \<Rightarrow> RgbdCameraSensor" where
  "ignerr m s = emit (Err m) s"

definition endl :: string where
  "endl = [CHR 0x0A]"

text \<open>\<open>IGN_PI\<close> is the macro \<open>M_PI\<close>, written as its decimal literal.\<close>

definition IGN_PI :: real where
  "IGN_PI = 3.14159265358979323846"

text \<open>\<open>rendering::PixelUtil::BytesPerPixel\<close> for the two formats used.\<close>

definition BytesPerPixel :: "PixelFormat \<Rightarrow> 32 word" where
  "BytesPerPixel f = (case f of R_FLOAT32 \<Rightarrow> 4 | RGB_INT8 \<Rightarrow> 3)"

definition MemorySize :: "PixelFormat \<Rightarrow> 32 word \<Rightarrow> 32 word \<Rightarrow> 32 word" where
  "MemorySize f w h = BytesPerPixel f * w * h"

text \<open>The state of a freshly constructed sensor (the constructor, lines 114-117).\<close>

definition new_Publisher :: Publisher where
  "new_Publisher = \<lparr>Valid = False, HasConnections = False, PubTopic = []\<rparr>"

definition new_PointCloudPacked :: msgs_PointCloudPacked where
  "new_PointCloudPacked =
     \<lparr>pc_frame_id = [], pc_point_step = 0, pc_width = 0, pc_height = 0, pc_row_step = 0,
      pc_stamp = \<lparr>sec = 0, nsec = 0\<rparr>, pc_is_dense = False, pc_filled = False\<rparr>"

definition new_RgbdCameraSensor :: "Sensor \<Rightarrow> RgbdCameraSensor" where
  "new_RgbdCameraSensor b =
     \<lparr>base = b, imagePub = new_Publisher, depthPub = new_Publisher,
      pointPub = new_Publisher, initialized = False, depthCamera = None,
      depthBuffer = None, pointCloudBuffer = None,
      image_rgb = \<lparr>imgWidth = 0, imgHeight = 0, imgFilled = False\<rparr>,
      depthConnection = False, pointCloudConnection = False,
      sceneChangeConnection = False, sdfSensor = None,
      pointMsg = new_PointCloudPacked, events = []\<rparr>"

subsection \<open>CreateCameras (lines 210-282)\<close>

definition CreateCameras :: "Env \<Rightarrow> RgbdCameraSensor \<Rightarrow> bool \<times> RgbdCameraSensor" where
  "CreateCameras env s =
     (case Option.bind (sdfSensor s) CameraSensor of
        None \<Rightarrow> (False, ignerr [S (''Unable to access camera SDF element'' @ endl)] s)
      | Some cameraSdf \<Rightarrow>
          let s1 = emit (PopulateInfo cameraSdf) s;
              width = ImageWidth cameraSdf;
              height = ImageHeight cameraSdf;
              cam = (CreateDepthCamera env (Name (base s1)))
                      \<lparr>camImageWidth := width, camImageHeight := height,
                       camNearClip := NearClip cameraSdf,
                       camFarClip := FarClip cameraSdf\<rparr>;
              s2 = emit (AddSensor cam) (s1\<lparr>depthCamera := Some cam\<rparr>);
              cam2 = cam\<lparr>camAntiAliasing := 2\<rparr>;
              s3 = s2\<lparr>depthCamera := Some cam2\<rparr>;
              angle = HorizontalFov cameraSdf
          in if angle < 0.01 \<or> angle > IGN_PI * 2
             then (False,
                   ignerr [S ''Invalid horizontal field of view ['', D angle,
                           S ('']'' @ endl)] s3)
             else
               let cam3 = cam2
                     \<lparr>camAspectRatio :=
                        (if sint height = 0 then None
                         else Some (real_of_int (sint width) / real_of_int (sint height))),
                      camHFOV := Some angle, camDepthTexture := True,
                      camInScene := True\<rparr>;
                   s4 = s3\<lparr>depthCamera := Some cam3, depthConnection := True,
                          pointCloudConnection := True\<rparr>;
                   pm = pointMsg s4
               in (True,
                   s4\<lparr>pointMsg := pm
                        \<lparr>pc_width := camImageWidth cam3,
                         pc_height := camImageHeight cam3,
                         pc_row_step := pc_point_step pm * camImageWidth cam3\<rparr>\<rparr>))"

subsection \<open>Load (lines 137-207)\<close>

definition Load :: "Env \<Rightarrow> sdf_Sensor \<Rightarrow> RgbdCameraSensor \<Rightarrow> bool \<times> RgbdCameraSensor" where
  "Load env sdf s0 =
     (let (ok, b) = Sensor_Load env sdf (base s0);
          s1 = s0\<lparr>base := b\<rparr>
      in if \<not> ok then (False, s1)
      else
        let s2 = (if Type sdf \<noteq> RGBD_CAMERA
                  then ignerr [S ''Attempting to a load a RGBD Camera sensor, but received '',
                               S ''a '', S (TypeStr sdf), S endl] s1
                  else s1)
        in if CameraSensor sdf = None
           then (False,
                 ignerr [S ''Attempting to a load an RGBD Camera sensor, but received '',
                         S ''a null sensor.'', S endl] s2)
        else
          let s3 = s2\<lparr>sdfSensor := Some sdf\<rparr>;
              s4 = s3\<lparr>imagePub := Advertise env (Topic (base s3) @ ''/image'')\<rparr>
          in if \<not> Valid (imagePub s4) then (False, s4)
          else
            let s5 = s4\<lparr>depthPub := Advertise env (Topic (base s4) @ ''/depth_image'')\<rparr>
            in if \<not> Valid (depthPub s5) then (False, s5)
            else
              let s6 = s5\<lparr>pointPub := Advertise env (Topic (base s5) @ ''/points'')\<rparr>
              in if \<not> Valid (pointPub s6) then (False, s6)
              else if \<not> AdvertiseInfo env (Topic (base s6) @ ''/camera_info'')
              then (False, s6)
              else
                let s7 = s6\<lparr>pointMsg := InitPointCloudPacked env (Name (base s6))\<rparr>;
                    s8 = (if Scene (base s7) \<noteq> None then snd (CreateCameras env s7)
                          else s7);
                    s9 = emit ConnectSceneChangeCallback
                           (s8\<lparr>sceneChangeConnection := True\<rparr>)
                in (True, s9\<lparr>initialized := True\<rparr>))"

subsection \<open>Update (lines 349-475)\<close>

text \<open>
  The block that builds and publishes the depth image (lines 371-396). The message's
  bytes are read from \<open>depthBuffer\<close>; the C++ does not check that the buffer has been
  allocated, and the model records the message whether it has or not.
\<close>

definition depthImageMsg :: "Time \<Rightarrow> 32 word \<Rightarrow> 32 word \<Rightarrow> RgbdCameraSensor \<Rightarrow> msgs_Image" where
  "depthImageMsg now width height s =
     \<lparr>im_width = width, im_height = height,
      im_step = width * BytesPerPixel R_FLOAT32,
      im_pixel_format = R_FLOAT32, im_stamp = now,
      im_frame_id = Name (base s), im_data = DepthBuffer,
      im_data_size = MemorySize R_FLOAT32 width height\<rparr>"

text \<open>The 2d image message (lines 448-461).\<close>

definition rgbImageMsg :: "Time \<Rightarrow> 32 word \<Rightarrow> 32 word \<Rightarrow> RgbdCameraSensor \<Rightarrow> msgs_Image" where
  "rgbImageMsg now width height s =
     \<lparr>im_width = width, im_height = height,
      im_step = width * BytesPerPixel RGB_INT8,
      im_pixel_format = RGB_INT8, im_stamp = now,
      im_frame_id = Name (base s), im_data = ImageData,
      im_data_size = MemorySize RGB_INT8 width height\<rparr>"

text \<open>
  The block guarded by \<open>pointCloudBuffer\<close> (lines 398-469). \<open>FillMsg\<close> and
  \<open>RGBImageFromPointCloud\<close> write the message's and the image's bytes; the model
  keeps only that they were written.
\<close>

definition publishPointCloud :: "Time \<Rightarrow> 32 word \<Rightarrow> 32 word \<Rightarrow> RgbdCameraSensor \<Rightarrow> RgbdCameraSensor" where
  "publishPointCloud now width height s =
     (let s1 = (if imgWidth (image_rgb s) \<noteq> width \<or> imgHeight (image_rgb s) \<noteq> height
                then s\<lparr>image_rgb := \<lparr>imgWidth = width, imgHeight = height, imgFilled = False\<rparr>\<rparr>
                else s);
          (filledImgData, s2) =
            (if HasConnections (pointPub s1)
             then
               let pm = (pointMsg s1)\<lparr>pc_stamp := now, pc_is_dense := True, pc_filled := True\<rparr>;
                   s' = s1\<lparr>pointMsg := pm, image_rgb := (image_rgb s1)\<lparr>imgFilled := True\<rparr>\<rparr>
               in (True, emit (PublishPoints (PubTopic (pointPub s')) pm) s')
             else (False, s1))
      in if HasConnections (imagePub s2)
         then
           let s3 = (if \<not> filledImgData
                     then s2\<lparr>image_rgb := (image_rgb s2)\<lparr>imgFilled := True\<rparr>\<rparr>
                     else s2)
           in emit (PublishImage (PubTopic (imagePub s3)) (rgbImageMsg now width height s3)) s3
         else s2)"

definition Update :: "Time \<Rightarrow> RgbdCameraSensor \<Rightarrow> bool \<times> RgbdCameraSensor" where
  "Update now s =
     (if \<not> initialized s
      then (False, ignerr [S (''Not initialized, update ignored.'' @ endl)] s)
      else
        case depthCamera s of
          None \<Rightarrow>
            (False, ignerr [S (''Depth or image cameras don'' @ [CHR 0x27] @ ''t exist.'' @ endl)] s)
        | Some cam \<Rightarrow>
            let width = camImageWidth cam;
                height = camImageHeight cam;
                s1 = emit Render s;
                s2 = (if HasConnections (depthPub s1)
                      then emit (PublishImage (PubTopic (depthPub s1))
                                   (depthImageMsg now width height s1)) s1
                      else s1);
                s3 = (if pointCloudBuffer s2 \<noteq> None
                      then publishPointCloud now width height s2
                      else s2)
            in (True, emit (PublishInfo now) s3))"

text \<open>
  The events of a trace that produce or publish a measurement: everything but a line on
  the error log.
\<close>

fun is_output :: "Event \<Rightarrow> bool" where
  "is_output (Err m) = False"
| "is_output e = True"

definition outputs :: "RgbdCameraSensor \<Rightarrow> Event list" where
  "outputs s = filter is_output (events s)"

subsection \<open>Concrete inputs\<close>

text \<open>
  A sensor named \<open>rgbd\<close> with no scene yet, a camera description, an environment
  in which the base class, the transport node and the rendering engine all succeed,
  two descriptors, an RGB-D camera and a plain camera (a \<open>camera\<close> element, but
  kind \<open>CAMERA\<close>), and a time.
\<close>

definition sensor0 :: Sensor where
  "sensor0 = \<lparr>Name = ''rgbd'', Topic = ''/rgbd'', Scene = None\<rparr>"

definition camera0 :: sdf_Camera where
  "camera0 = \<lparr>ImageWidth = 320, ImageHeight = 240, NearClip = 0.1, FarClip = 10,
               HorizontalFov = 1\<rparr>"

definition env_ok :: Env where
  "env_ok =
     \<lparr>Sensor_Load = (\<lambda>sdf b. (True, b)),
      Advertise = (\<lambda>t. \<lparr>Valid = True, HasConnections = False, PubTopic = t\<rparr>),
      AdvertiseInfo = (\<lambda>t. True),
      InitPointCloudPacked =
        (\<lambda>n. new_PointCloudPacked\<lparr>pc_frame_id := n, pc_point_step := 32\<rparr>),
      CreateDepthCamera =
        (\<lambda>n. \<lparr>camImageWidth = 0, camImageHeight = 0, camNearClip = 0, camFarClip = 0,
              camAntiAliasing = 0, camAspectRatio = None, camHFOV = None,
              camDepthTexture = False, camInScene = False\<rparr>)\<rparr>"

definition sdf_rgbd :: sdf_Sensor where
  "sdf_rgbd = \<lparr>Type = RGBD_CAMERA, TypeStr = ''rgbd_camera'', CameraSensor = Some camera0\<rparr>"

definition sdf_camera :: sdf_Sensor where
  "sdf_camera = \<lparr>Type = CAMERA, TypeStr = ''camera'', CameraSensor = Some camera0\<rparr>"

definition time0 :: Time where
  "time0 = \<lparr>sec = 1, nsec = 0\<rparr>"

section \<open>Noise models (src/src/Noise_TEST.cc)\<close>

text \<open>
  The classes \<open>Noise\<close>, \<open>GaussianNoiseModel\<close> and \<open>NoiseFactory\<close> are declared and
  defined in files that are not among the sources (\<open>Noise.hh\<close>, \<open>Noise.cc\<close>,
  \<open>GaussianNoiseModel.cc\<close>); the sources hold their test, \<open>Noise_TEST.cc\<close>. The
  definitions of this section follow the specification, and the test wherever it
  fixes a value. A \<open>double\<close> is read as a real number.
\<close>

text \<open>
  Modelled from the spec: the variant tag \<open>sensors::NoiseType\<close> (\<open>Noise.hh\<close> is
  missing). The specification's data model lists the tags None, Gaussian,
  GaussianQuantized and Custom; the test names \<open>NONE\<close>, \<open>CUSTOM\<close> and \<open>GAUSSIAN\<close>.
\<close>

datatype NoiseType = NONE | CUSTOM | GAUSSIAN | GAUSSIAN_QUANTIZED

text \<open>
  Modelled from the spec: the noise descriptor (\<open>sdf::Noise\<close>, of the descriptor
  library), with the fields of section 6 of the specification.
\<close>

record sdf_Noise =
  type_str :: string
  mean :: real
  stddev :: real
  bias_mean :: real
  bias_stddev :: real
  precision :: real

text \<open>
  Modelled from the spec: the class \<open>Noise\<close> (\<open>Noise.cc\<close> is missing): the tag and,
  for the Custom variant, the callback, absent until one is installed.
\<close>

record Noise =
  noiseType :: NoiseType
  customNoiseCallback :: "(real \<Rightarrow> real \<Rightarrow> real) option"

text \<open>
  Modelled from the spec: the constructor \<open>Noise(NoiseType)\<close>, as the test calls it
  (lines 405 and 423).
\<close>

definition new_Noise :: "NoiseType \<Rightarrow> Noise" where
  "new_Noise t = \<lparr>noiseType = t, customNoiseCallback = None\<rparr>"

text \<open>Modelled from the spec: \<open>Noise::SetCustomNoiseCallback\<close> installs the callback.\<close>

definition SetCustomNoiseCallback :: "(real \<Rightarrow> real \<Rightarrow> real) \<Rightarrow> Noise \<Rightarrow> Noise" where
  "SetCustomNoiseCallback cb n = n\<lparr>customNoiseCallback := Some cb\<rparr>"

text \<open>
  Modelled from the spec: \<open>Noise::ApplyImpl\<close> of the base class, which the Gaussian
  model overrides. The test expects the base class to pass its input through
  (line 426).
\<close>

definition ApplyImpl :: "Noise \<Rightarrow> real \<Rightarrow> real \<Rightarrow> real" where
  "ApplyImpl n x dt = x"

text \<open>
  Modelled from the spec: \<open>Noise::Apply\<close>, the rows None and Custom of the table in
  section 4.1: None returns its input; Custom returns the callback's result, or its
  input while no callback has been installed; every other tag goes to \<open>ApplyImpl\<close>.
\<close>

definition Apply :: "Noise \<Rightarrow> real \<Rightarrow> real \<Rightarrow> real" where
  "Apply n x dt =
     (if noiseType n = NONE then x
      else if noiseType n = CUSTOM
      then (case customNoiseCallback n of Some cb \<Rightarrow> cb x dt | None \<Rightarrow> x)
      else ApplyImpl n x dt)"

text \<open>The test's callback \<open>OnApplyCustomNoise\<close> (\<open>Noise_TEST.cc\<close>, lines 396-399).\<close>

definition OnApplyCustomNoise :: "real \<Rightarrow> real \<Rightarrow> real" where
  "OnApplyCustomNoise x dt = x * 2"

text \<open>
  Modelled from the spec: one draw from the normal distribution with mean \<open>m\<close> and
  standard deviation \<open>sd\<close> (\<open>ignition::math::Rand::DblNormal\<close>, of the maths library).
  \<open>z\<close> is the standard normal variate the generator yields for this draw; with
  \<open>sd = 0\<close> the draw is exactly \<open>m\<close>, as section 4.1 says.
\<close>

definition DblNormal :: "real \<Rightarrow> real \<Rightarrow> real \<Rightarrow> real" where
  "DblNormal m sd z = m + sd * z"

text \<open>
  \<open>std::round\<close>: the nearest integer, a half rounded away from zero. (\<open>round\<close> of
  the library rounds a half up.)
\<close>

definition std_round :: "real \<Rightarrow> int" where
  "std_round y = (if 0 \<le> y then \<lfloor>y + 1 / 2\<rfloor> else \<lceil>y - 1 / 2\<rceil>)"

text \<open>
  Modelled from the spec: the class \<open>GaussianNoiseModel\<close> (\<open>GaussianNoiseModel.cc\<close>
  is missing): a \<open>Noise\<close> with the Gaussian parameters, the bias, and the quantization
  step (section 3).
\<close>

record GaussianNoiseModel = Noise +
  Mean :: real
  StdDev :: real
  Bias :: real
  Precision :: real

text \<open>
  Modelled from the spec: the construction of a Gaussian model with tag \<open>t\<close> from a
  descriptor (section 3): mean, standard deviation and precision are the descriptor's,
  and the bias is drawn once, from the normal distribution with the descriptor's bias
  mean and bias standard deviation; \<open>z0\<close> is the variate of that draw. Which tag
  \<open>NoiseFactory\<close> gives the model is not modelled.
\<close>

definition new_GaussianNoiseModel :: "NoiseType \<Rightarrow> real \<Rightarrow> sdf_Noise \<Rightarrow> GaussianNoiseModel" where
  "new_GaussianNoiseModel t z0 sdf =
     \<lparr>noiseType = t, customNoiseCallback = None,
      Mean = mean sdf, StdDev = stddev sdf,
      Bias = DblNormal (bias_mean sdf) (bias_stddev sdf) z0,
      Precision = precision sdf\<rparr>"

text \<open>
  Modelled from the spec: \<open>GaussianNoiseModel::ApplyImpl\<close>, the rows Gaussian and
  GaussianQuantized of the table in section 4.1. The input plus a fresh draw (variate
  \<open>z\<close>) plus the bias; the GaussianQuantized variant then rounds to the nearest
  multiple of its precision when the precision is positive.
\<close>

definition GaussianNoiseModel_ApplyImpl :: "GaussianNoiseModel \<Rightarrow> real \<Rightarrow> real \<Rightarrow> real \<Rightarrow> real" where
  "GaussianNoiseModel_ApplyImpl g z x dt =
     (let output = x + DblNormal (Mean g) (StdDev g) z + Bias g
      in if noiseType g = GAUSSIAN_QUANTIZED \<and> 0 < Precision g
         then real_of_int (std_round (output / Precision g)) * Precision g
         else output)"

text \<open>
  Modelled from the spec: \<open>Apply\<close> on a Gaussian model: as \<open>Apply\<close> above, with the
  model's own \<open>ApplyImpl\<close>.
\<close>

definition GaussianNoiseModel_Apply :: "GaussianNoiseModel \<Rightarrow> real \<Rightarrow> real \<Rightarrow> real \<Rightarrow> real" where
  "GaussianNoiseModel_Apply g z x dt =
     (if noiseType g = NONE then x
      else if noiseType g = CUSTOM
      then (case customNoiseCallback g of Some cb \<Rightarrow> cb x dt | None \<Rightarrow> x)
      else GaussianNoiseModel_ApplyImpl g z x dt)"

text \<open>
  The test's helper \<open>NoiseSdf\<close> (lines 40-59) writes its arguments into a descriptor.
  It prints each number into text and reads it back; the numbers the tests pass
  (0, 0.3, 5, 10, 100) are printed in full.
\<close>

definition NoiseSdf :: "string \<Rightarrow> real \<Rightarrow> real \<Rightarrow> real \<Rightarrow> real \<Rightarrow> real \<Rightarrow> sdf_Noise" where
  "NoiseSdf t m sd bm bsd p =
     \<lparr>type_str = t, mean = m, stddev = sd, bias_mean = bm, bias_stddev = bsd,
      precision = p\<rparr>"

text \<open>
  Two GaussianQuantized models: one with the parameters of the test's precision check
  (lines 369-378: precision 0.3, every mean and standard deviation 0), one with those
  of its first check (lines 285-293: precision 0 as well).
\<close>

definition quantized03 :: "real \<Rightarrow> GaussianNoiseModel" where
  "quantized03 z0 =
     new_GaussianNoiseModel GAUSSIAN_QUANTIZED z0 (NoiseSdf ''gaussian_quantized'' 0 0 0 0 0.3)"

definition zero_precision :: "real \<Rightarrow> GaussianNoiseModel" where
  "zero_precision z0 =
     new_GaussianNoiseModel GAUSSIAN_QUANTIZED z0 (NoiseSdf ''gaussian_quantized'' 0 0 0 0 0)"

text \<open>A \<open>NoisePtr\<close> points to nothing, to a \<open>Noise\<close> or to a \<open>GaussianNoiseModel\<close>.\<close>

datatype NoisePtr = nullptr | NoiseObj Noise | GaussianObj GaussianNoiseModel

text \<open>
  Modelled from the spec: \<open>NoiseFactory::NewNoiseModel\<close> (\<open>Noise.cc\<close> is missing),
  section 4.2: \<open>none\<close> gives a None model, \<open>gaussian\<close> a Gaussian model and
  \<open>gaussian_quantized\<close> a GaussianQuantized model; each Gaussian model is built from the
  descriptor, so it keeps the descriptor's precision, which the Gaussian variant's
  \<open>ApplyImpl\<close> ignores; an unrecognized type string gives no model; the sensor-kind hint
  changes nothing. One point is the test's, not the specification's: for the
  descriptor \<open>gaussian_quantized\<close> with precision 0 the test expects the tag
  \<open>GAUSSIAN\<close> (\<open>Noise_TEST.cc\<close>, lines 118-128), and so the model gives that tag at
  precision 0. \<open>z0\<close> is the variate of the bias draw.
\<close>

definition NewNoiseModel :: "real \<Rightarrow> sdf_Noise \<Rightarrow> string \<Rightarrow> NoisePtr" where
  "NewNoiseModel z0 sdf sensorType =
     (if type_str sdf = ''gaussian''
      then GaussianObj (new_GaussianNoiseModel GAUSSIAN z0 sdf)
      else if type_str sdf = ''gaussian_quantized''
      then GaussianObj
             (new_GaussianNoiseModel
                (if precision sdf = 0 then GAUSSIAN else GAUSSIAN_QUANTIZED) z0 sdf)
      else if type_str sdf = ''none'' then NoiseObj (new_Noise NONE)
      else nullptr)"

text \<open>\<open>Type()\<close> through a \<open>NoisePtr\<close>; nothing for a null pointer.\<close>

definition Type_of :: "NoisePtr \<Rightarrow> NoiseType option" where
  "Type_of p =
     (case p of nullptr \<Rightarrow> None
      | NoiseObj n \<Rightarrow> Some (noiseType n)
      | GaussianObj g \<Rightarrow> Some (noiseType g))"

text \<open>
  The expectations of \<open>NoiseTest.Types\<close> on descriptors given by their type string
  (lines 98-100, 108-111, 120-123).
\<close>

definition NoiseTest_Types :: "real \<Rightarrow> bool" where
  "NoiseTest_Types z0 \<longleftrightarrow>
     Type_of (NewNoiseModel z0 (NoiseSdf ''none'' 0 0 0 0 0) []) = Some NONE \<and>
     Type_of (NewNoiseModel z0 (NoiseSdf ''gaussian'' 0 0 0 0 0) []) = Some GAUSSIAN \<and>
     Type_of (NewNoiseModel z0 (NoiseSdf ''gaussian_quantized'' 0 0 0 0 0) []) = Some GAUSSIAN"

text \<open>
  A Gaussian descriptor with mean 10, bias mean 100 and both standard deviations 0.
\<close>

definition sdf_exact_bias :: sdf_Noise where
  "sdf_exact_bias = NoiseSdf ''gaussian'' 10 0 100 0 0"

text \<open>
  The ten expectations of the precision check of \<open>NoiseTest.ApplyGaussianQuantized\<close>
  (lines 380-390).
\<close>

definition NoiseTest_ApplyGaussianQuantized_precision :: "real \<Rightarrow> real \<Rightarrow> bool" where
  "NoiseTest_ApplyGaussianQuantized_precision z0 z \<longleftrightarrow>
     list_all (\<lambda>x. \<bar>GaussianNoiseModel_Apply (quantized03 z0) z x 0 - 0.3\<bar> \<le> 1 / 1000000)
       [0.32, 0.31, 0.30, 0.29, 0.28] \<and>
     list_all (\<lambda>x. \<bar>GaussianNoiseModel_Apply (quantized03 z0) z x 0 - (- 12.9)\<bar> \<le> 1 / 1000000)
       [- 12.92, - 12.91, - 12.90, - 12.89, - 12.88]"

text \<open>
  The expectations of \<open>NoiseTest.OnApplyNoise\<close> (lines 401-418) and of the first two
  checks of \<open>NoiseTest.NoiseFailures\<close> (lines 423-426).
\<close>

definition NoiseTest_OnApplyNoise :: bool where
  "NoiseTest_OnApplyNoise \<longleftrightarrow>
     noiseType (new_Noise CUSTOM) = CUSTOM \<and>
     list_all
       (\<lambda>i. Apply (SetCustomNoiseCallback OnApplyCustomNoise (new_Noise CUSTOM)) (real i) 0
             = real i * 2)
       [0..<100]"

definition NoiseTest_NoiseFailures :: bool where
  "NoiseTest_NoiseFailures \<longleftrightarrow>
     Apply (new_Noise CUSTOM) 9 0.1 = 9 \<and> ApplyImpl (new_Noise CUSTOM) 9 0.1 = 9"

text \<open>A decimal digit, and a natural number written in decimal, as \<open><<\<close> writes it.\<close>

definition digit :: "nat \<Rightarrow> char" where
  "digit d = ''0123456789'' ! d"

function decimal :: "nat \<Rightarrow> string" where
  "decimal n = (if n < 10 then [digit n] else decimal (n div 10) @ [digit (n mod 10)])"
  by pat_completeness auto
termination
  by (relation "measure id") auto

text \<open>
  Modelled from the spec: \<open>Noise::Print\<close> of the base class (\<open>Noise.cc\<close> is missing),
  section 4.1: it appends the message to the sink, with the integer value of the
  model's tag. The integer values of the tags are declared in \<open>Noise.hh\<close>, which is
  missing, and the specification does not give them; they are the parameter
  \<open>tagValue\<close>. The test fixes one of them: 1 for \<open>CUSTOM\<close> (line 429).
\<close>

definition Print :: "(NoiseType \<Rightarrow> nat) \<Rightarrow> Noise \<Rightarrow> string \<Rightarrow> string" where
  "Print tagValue n out =
     out @ ''Noise with type['' @ decimal (tagValue (noiseType n))
         @ ''] does not have an overloaded Print function. ''
         @ ''No more information is available.''"

text \<open>One numbering of the tags that gives \<open>CUSTOM\<close> the value 1.\<close>

definition tag_order :: "NoiseType \<Rightarrow> nat" where
  "tag_order t = (case t of NONE \<Rightarrow> 0 | CUSTOM \<Rightarrow> 1 | GAUSSIAN \<Rightarrow> 2 | GAUSSIAN_QUANTIZED \<Rightarrow> 3)"

section \<open>The sensor manager (src/include/gz/sensors/Manager.hh)\<close>

text \<open>
  \<open>Manager.hh\<close> declares \<open>AddSensor\<close>, \<open>Sensor\<close>, \<open>Remove\<close> and \<open>RunOnce\<close>; their bodies
  (\<open>Manager.cc\<close>) and the class \<open>Sensor\<close> with \<open>SensorId\<close> and \<open>NO_SENSOR\<close>
  (\<open>Sensor.hh\<close>) are not among the sources. The definitions of this section follow
  sections 3 and 4.5 of the specification. Times and rates are real numbers.
\<close>

text \<open>
  Modelled from the spec: \<open>SensorId\<close>, an integer handle, and the sentinel \<open>NO_SENSOR\<close>.
  The specification fixes neither the sentinel's value nor the first id; the model
  takes 0 for the sentinel and 1 for the first id.
\<close>

type_synonym SensorId = nat

definition NO_SENSOR :: SensorId where
  "NO_SENSOR = 0"

text \<open>
  Modelled from the spec: what the manager reads of a sensor (section 3): its id, its
  update rate, and the time of its last successful update, \<open>None\<close> while it has
  never been updated. \<open>updateOk\<close> says whether the concrete sensor's \<open>Update\<close> succeeds
  at a time; \<open>updateCalls\<close> is the trace of the times \<open>Update\<close> was called with.
\<close>

record ManagedSensor =
  sensorId :: SensorId
  updateRate :: real
  lastUpdateTime :: "real option"
  updateOk :: "real \<Rightarrow> bool"
  updateCalls :: "real list"

text \<open>
  Modelled from the spec: the registry, a map from ids to the sensors owned, and the
  next unused id.
\<close>

record Manager =
  sensors :: "SensorId \<rightharpoonup> ManagedSensor"
  nextId :: SensorId

definition new_Manager :: Manager where
  "new_Manager = \<lparr>sensors = Map.empty, nextId = 1\<rparr>"

text \<open>
  Modelled from the spec: \<open>Manager::AddSensor\<close>: a null sensor is rejected with
  \<open>NO_SENSOR\<close>; otherwise the sensor gets the next unused id, is stored under it, and
  the id is returned.
\<close>

definition Manager_AddSensor :: "ManagedSensor option \<Rightarrow> Manager \<Rightarrow> SensorId \<times> Manager" where
  "Manager_AddSensor sensor m =
     (case sensor of
        None \<Rightarrow> (NO_SENSOR, m)
      | Some s \<Rightarrow>
          (nextId m,
           m\<lparr>sensors := (sensors m)(nextId m \<mapsto> s\<lparr>sensorId := nextId m\<rparr>),
             nextId := nextId m + 1\<rparr>))"

text \<open>Modelled from the spec: \<open>Manager::Sensor\<close>: the sensor under an id, or null.\<close>

definition Manager_Sensor :: "SensorId \<Rightarrow> Manager \<Rightarrow> ManagedSensor option" where
  "Manager_Sensor i m = sensors m i"

text \<open>
  Modelled from the spec: \<open>Manager::Remove\<close>: true, and the entry erased, if the id is
  registered; false, and nothing changed, otherwise.
\<close>

definition Manager_Remove :: "SensorId \<Rightarrow> Manager \<Rightarrow> bool \<times> Manager" where
  "Manager_Remove i m =
     (case sensors m i of
        None \<Rightarrow> (False, m)
      | Some s \<Rightarrow> (True, m\<lparr>sensors := (sensors m)(i := None)\<rparr>))"

text \<open>
  A sequence of calls of \<open>AddSensor\<close> and \<open>Remove\<close>: the manager after the sequence,
  and the ids returned, in order, by the calls of \<open>AddSensor\<close> that were given a
  sensor.
\<close>

datatype ManagerOp = DoAdd "ManagedSensor option" | DoRemove SensorId

fun after :: "ManagerOp list \<Rightarrow> Manager \<Rightarrow> Manager" where
  "after [] m = m"
| "after (DoAdd sensor # ops) m = after ops (snd (Manager_AddSensor sensor m))"
| "after (DoRemove i # ops) m = after ops (snd (Manager_Remove i m))"

fun added_ids :: "ManagerOp list \<Rightarrow> Manager \<Rightarrow> SensorId list" where
  "added_ids [] m = []"
| "added_ids (DoAdd None # ops) m = added_ids ops (snd (Manager_AddSensor None m))"
| "added_ids (DoAdd (Some s) # ops) m =
     fst (Manager_AddSensor (Some s) m) # added_ids ops (snd (Manager_AddSensor (Some s) m))"
| "added_ids (DoRemove i # ops) m = added_ids ops (snd (Manager_Remove i m))"

text \<open>The invariant of the registry: every registered id is below the next unused id.\<close>

definition registered_below :: "Manager \<Rightarrow> bool" where
  "registered_below m \<longleftrightarrow>
     NO_SENSOR < nextId m \<and> (\<forall>i. sensors m i \<noteq> None \<longrightarrow> i < nextId m)"

text \<open>
  Modelled from the spec: whether \<open>RunOnce\<close> calls a sensor's \<open>Update\<close> (section
  4.5): always when forced; otherwise when the update rate is not positive, or when
  the time since the last update is at least the period. The specification gives no
  rule for a sensor that has never been updated; the model updates it.
\<close>

definition due :: "real \<Rightarrow> bool \<Rightarrow> ManagedSensor \<Rightarrow> bool" where
  "due t force s \<longleftrightarrow>
     force \<or> updateRate s \<le> 0 \<or>
     (case lastUpdateTime s of None \<Rightarrow> True | Some l \<Rightarrow> 1 / updateRate s \<le> t - l)"

text \<open>
  The call of the sensor's \<open>Update\<close>, an extension point of the concrete sensor: it
  is recorded in the trace, and succeeds or fails as \<open>updateOk\<close> says.
\<close>

definition Sensor_Update :: "real \<Rightarrow> ManagedSensor \<Rightarrow> bool \<times> ManagedSensor" where
  "Sensor_Update t s = (updateOk s t, s\<lparr>updateCalls := updateCalls s @ [t]\<rparr>)"

text \<open>
  Modelled from the spec: what \<open>RunOnce\<close> does to one sensor: a sensor that is due is
  updated, and a successful update sets the time of the last update; a failed one
  leaves it. (The line logged for a failed update is left out.)
\<close>

definition step :: "real \<Rightarrow> bool \<Rightarrow> ManagedSensor \<Rightarrow> ManagedSensor" where
  "step t force s =
     (if due t force s
      then
        let (ok, s') = Sensor_Update t s
        in if ok then s'\<lparr>lastUpdateTime := Some t\<rparr> else s'
      else s)"

text \<open>
  Modelled from the spec: \<open>Manager::RunOnce\<close> steps every registered sensor; the
  sensors do not depend on each other, so no order is needed.
\<close>

definition Manager_RunOnce :: "real \<Rightarrow> bool \<Rightarrow> Manager \<Rightarrow> Manager" where
  "Manager_RunOnce t force m = m\<lparr>sensors := (\<lambda>i. map_option (step t force) (sensors m i))\<rparr>"

text \<open>
  Concrete inputs: a sensor at 10 Hz, the same last updated at time 1, one with rate 0
  last updated at time 1, managers that hold one of them, and two sequences of calls.
\<close>

definition sensor0m :: ManagedSensor where
  "sensor0m = \<lparr>sensorId = NO_SENSOR, updateRate = 10, lastUpdateTime = None,
               updateOk = (\<lambda>t. True), updateCalls = []\<rparr>"

definition sensor10 :: ManagedSensor where
  "sensor10 = sensor0m\<lparr>lastUpdateTime := Some 1\<rparr>"

definition sensor_fast :: ManagedSensor where
  "sensor_fast = sensor0m\<lparr>updateRate := 0, lastUpdateTime := Some 1\<rparr>"

definition manager10 :: Manager where
  "manager10 = snd (Manager_AddSensor (Some sensor10) new_Manager)"

definition manager_fast :: Manager where
  "manager_fast = snd (Manager_AddSensor (Some sensor_fast) new_Manager)"

definition ops_before :: "ManagerOp list" where
  "ops_before = [DoAdd (Some sensor0m), DoAdd None, DoAdd (Some sensor0m)]"

definition ops_after :: "ManagerOp list" where
  "ops_after = [DoAdd (Some sensor0m), DoRemove 2, DoAdd (Some sensor0m)]"

section \<open>Properties of the RGB-D camera sensor\<close>

subsection \<open>Load\<close>

text \<open>\<open>CreateCameras\<close> never touches the flag \<open>initialized\<close>.\<close>

lemma CreateCameras_initialized:
  "initialized (snd (CreateCameras env s)) = initialized s"
  by (simp add: CreateCameras_def ignerr_def emit_def Let_def split: option.splits)

text \<open>A \<open>Load\<close> that returns false leaves the flag as it was.\<close>

lemma Load_False_initialized:
  "\<not> fst (Load env sdf s) \<Longrightarrow> initialized (snd (Load env sdf s)) = initialized s"
  by (auto simp: Load_def ignerr_def emit_def Let_def split: prod.splits if_splits)

text \<open>A \<open>Load\<close> that returns true has set the flag.\<close>

lemma Load_True_initialized:
  "fst (Load env sdf s) \<Longrightarrow> initialized (snd (Load env sdf s))"
  by (auto simp: Load_def ignerr_def emit_def Let_def split: prod.splits if_splits)

text \<open>
  What \<open>Load\<close> returns: true exactly when the base class's \<open>Load\<close> succeeds, the
  descriptor has a camera element, the three publishers are valid and the camera-info
  topic is advertised. The descriptor's kind does not occur.
\<close>

lemma Load_returns:
  "fst (Load env sdf s) \<longleftrightarrow>
     fst (Sensor_Load env sdf (base s)) \<and> CameraSensor sdf \<noteq> None \<and>
     Valid (Advertise env (Topic (snd (Sensor_Load env sdf (base s))) @ ''/image'')) \<and>
     Valid (Advertise env (Topic (snd (Sensor_Load env sdf (base s))) @ ''/depth_image'')) \<and>
     Valid (Advertise env (Topic (snd (Sensor_Load env sdf (base s))) @ ''/points'')) \<and>
     AdvertiseInfo env (Topic (snd (Sensor_Load env sdf (base s))) @ ''/camera_info'')"
  by (auto simp: Load_def ignerr_def emit_def Let_def split: prod.splits if_splits)

text \<open>The state after loading the RGB-D descriptor into a fresh sensor with no scene.\<close>

lemma Load_ok_value:
  "Load env_ok sdf_rgbd (new_RgbdCameraSensor sensor0) =
     (True, (new_RgbdCameraSensor sensor0)
        \<lparr>imagePub := \<lparr>Valid = True, HasConnections = False, PubTopic = ''/rgbd/image''\<rparr>,
         depthPub := \<lparr>Valid = True, HasConnections = False, PubTopic = ''/rgbd/depth_image''\<rparr>,
         pointPub := \<lparr>Valid = True, HasConnections = False, PubTopic = ''/rgbd/points''\<rparr>,
         initialized := True,
         sceneChangeConnection := True,
         sdfSensor := Some sdf_rgbd,
         pointMsg := new_PointCloudPacked\<lparr>pc_frame_id := ''rgbd'', pc_point_step := 32\<rparr>,
         events := [ConnectSceneChangeCallback]\<rparr>)"
  by (simp add: Load_def env_ok_def sdf_rgbd_def new_RgbdCameraSensor_def sensor0_def emit_def)

text \<open>
  Claim C1 says that \<open>Load\<close> returns false and leaves \<open>initialized\<close> false whenever
  the descriptor's kind is not the sensor's own. The code checks the kind (lines
  146-151) and writes the error line, but does not return there. At the descriptor
  \<open>sdf_camera\<close>, of kind \<open>CAMERA\<close> with a camera element, loaded into a fresh sensor
  in an environment where every collaborator succeeds, \<open>Load\<close> writes the error
  line, returns true and sets \<open>initialized\<close>.
\<close>

theorem Load_wrong_type_succeeds:
  "Type sdf_camera \<noteq> RGBD_CAMERA \<and>
   fst (Load env_ok sdf_camera (new_RgbdCameraSensor sensor0)) \<and>
   initialized (snd (Load env_ok sdf_camera (new_RgbdCameraSensor sensor0))) \<and>
   events (snd (Load env_ok sdf_camera (new_RgbdCameraSensor sensor0))) =
     [Err [S ''Attempting to a load a RGBD Camera sensor, but received '', S ''a '',
           S ''camera'', S endl],
      ConnectSceneChangeCallback]"
  by (simp add: Load_def env_ok_def sdf_camera_def new_RgbdCameraSensor_def sensor0_def
      ignerr_def emit_def)

text \<open>
  Claim C10: \<open>Load\<close> sets \<open>initialized\<close> only as the last step of a load that
  succeeds. For a sensor whose flag is still false, \<open>Load\<close> returns true if and only
  if the flag is true afterwards; and it returns true if and only if none of the
  failing paths is taken: the base class's \<open>Load\<close> succeeds, the camera element is
  there, the three advertisements give valid publishers and the camera-info
  advertisement succeeds.
\<close>

theorem Load_initialized_iff:
  assumes "\<not> initialized s"
  shows "(fst (Load env sdf s) \<longleftrightarrow> initialized (snd (Load env sdf s))) \<and>
    (fst (Load env sdf s) \<longleftrightarrow>
       fst (Sensor_Load env sdf (base s)) \<and> CameraSensor sdf \<noteq> None \<and>
       Valid (Advertise env (Topic (snd (Sensor_Load env sdf (base s))) @ ''/image'')) \<and>
       Valid (Advertise env (Topic (snd (Sensor_Load env sdf (base s))) @ ''/depth_image'')) \<and>
       Valid (Advertise env (Topic (snd (Sensor_Load env sdf (base s))) @ ''/points'')) \<and>
       AdvertiseInfo env (Topic (snd (Sensor_Load env sdf (base s))) @ ''/camera_info''))"
proof -
  have "fst (Load env sdf s) \<longleftrightarrow> initialized (snd (Load env sdf s))"
  proof (cases "fst (Load env sdf s)")
    case True
    then show ?thesis using Load_True_initialized by simp
  next
    case False
    then show ?thesis using Load_False_initialized [of env sdf s] assms by simp
  qed
  then show ?thesis using Load_returns [of env sdf s] by blast
qed

text \<open>
  The theorem at a fresh sensor: the RGB-D descriptor loads and sets the flag; the
  same descriptor without its camera element does not load and leaves the flag false.
\<close>

theorem Load_initialized_iff_witness:
  "\<not> initialized (new_RgbdCameraSensor sensor0) \<and>
   fst (Load env_ok sdf_rgbd (new_RgbdCameraSensor sensor0)) \<and>
   initialized (snd (Load env_ok sdf_rgbd (new_RgbdCameraSensor sensor0))) \<and>
   \<not> fst (Load env_ok (sdf_rgbd\<lparr>CameraSensor := None\<rparr>) (new_RgbdCameraSensor sensor0)) \<and>
   \<not> initialized (snd (Load env_ok (sdf_rgbd\<lparr>CameraSensor := None\<rparr>) (new_RgbdCameraSensor sensor0)))"
proof -
  have h: "\<not> initialized (new_RgbdCameraSensor sensor0)"
    by (simp add: new_RgbdCameraSensor_def)
  note ok = Load_initialized_iff [OF h, of env_ok sdf_rgbd]
  note ko = Load_initialized_iff [OF h, of env_ok "sdf_rgbd\<lparr>CameraSensor := None\<rparr>"]
  have "fst (Load env_ok sdf_rgbd (new_RgbdCameraSensor sensor0))"
    by (rule iffD2 [OF conjunct2 [OF ok]]) (simp add: env_ok_def sdf_rgbd_def)
  moreover
  have "\<not> fst (Load env_ok (sdf_rgbd\<lparr>CameraSensor := None\<rparr>) (new_RgbdCameraSensor sensor0))"
    using conjunct2 [OF ko] by simp
  ultimately show ?thesis
    using h conjunct1 [OF ok] conjunct1 [OF ko] by blast
qed

subsection \<open>Update\<close>

text \<open>
  An \<open>Update\<close> of an initialized sensor that has its depth camera, and its depth
  buffer if the depth image is to be published, returns true, renders, and ends by
  publishing the camera info.
\<close>

lemma Update_succeeds:
  "initialized s \<Longrightarrow> depthCamera s = Some cam \<Longrightarrow>
   HasConnections (depthPub s) \<longrightarrow> depthBuffer s \<noteq> None \<Longrightarrow>
     fst (Update now s) \<and> Render \<in> set (outputs (snd (Update now s))) \<and>
     last (events (snd (Update now s))) = PublishInfo now"
  by (simp add: Update_def outputs_def emit_def Let_def publishPointCloud_def
      split: prod.splits)

text \<open>
  With a scene at hand, \<open>Load\<close> creates the depth camera with the descriptor's image
  size, and the next \<open>Update\<close> succeeds.
\<close>

lemma Load_with_scene:
  "fst (Load env_ok sdf_rgbd (new_RgbdCameraSensor (sensor0\<lparr>Scene := Some 0\<rparr>))) \<and>
   map_option camImageWidth
     (depthCamera (snd (Load env_ok sdf_rgbd (new_RgbdCameraSensor (sensor0\<lparr>Scene := Some 0\<rparr>)))))
     = Some 320 \<and>
   fst (Update time0 (snd (Load env_ok sdf_rgbd (new_RgbdCameraSensor (sensor0\<lparr>Scene := Some 0\<rparr>)))))"
  by (simp add: Load_def CreateCameras_def Update_def env_ok_def sdf_rgbd_def camera0_def
      new_RgbdCameraSensor_def sensor0_def new_PointCloudPacked_def new_Publisher_def
      ignerr_def emit_def IGN_PI_def Let_def)

text \<open>
  Claim C8: an \<open>Update\<close> of a sensor whose \<open>initialized\<close> flag is false returns
  false and neither produces nor publishes a measurement: the trace gains nothing but
  the error line, and nothing else of the state changes. The same holds when the
  depth camera is null.
\<close>

theorem Update_fails:
  "(\<not> initialized s \<longrightarrow>
      fst (Update now s) = False \<and> outputs (snd (Update now s)) = outputs s \<and>
      (snd (Update now s))\<lparr>events := events s\<rparr> = s) \<and>
   (depthCamera s = None \<longrightarrow>
      fst (Update now s) = False \<and> outputs (snd (Update now s)) = outputs s \<and>
      (snd (Update now s))\<lparr>events := events s\<rparr> = s)"
  by (simp add: Update_def outputs_def ignerr_def emit_def)

text \<open>
  The theorem at a fresh sensor (not initialized), and at the sensor loaded with no
  scene (initialized, with no depth camera).
\<close>

theorem Update_fails_witness:
  "\<not> initialized (new_RgbdCameraSensor sensor0) \<and>
   fst (Update time0 (new_RgbdCameraSensor sensor0)) = False \<and>
   outputs (snd (Update time0 (new_RgbdCameraSensor sensor0))) = [] \<and>
   initialized (snd (Load env_ok sdf_rgbd (new_RgbdCameraSensor sensor0))) \<and>
   depthCamera (snd (Load env_ok sdf_rgbd (new_RgbdCameraSensor sensor0))) = None \<and>
   fst (Update time0 (snd (Load env_ok sdf_rgbd (new_RgbdCameraSensor sensor0)))) = False \<and>
   outputs (snd (Update time0 (snd (Load env_ok sdf_rgbd (new_RgbdCameraSensor sensor0)))))
     = [ConnectSceneChangeCallback]"
  using Update_fails [of "new_RgbdCameraSensor sensor0" time0]
    Update_fails [of "snd (Load env_ok sdf_rgbd (new_RgbdCameraSensor sensor0))" time0]
  by (simp add: Load_ok_value) (simp add: new_RgbdCameraSensor_def outputs_def)

section \<open>Properties of the noise models\<close>

text \<open>The model meets the expectations of the tests.\<close>

lemma NoiseTest_NoiseFailures_passes: "NoiseTest_NoiseFailures"
  by (simp add: NoiseTest_NoiseFailures_def Apply_def ApplyImpl_def new_Noise_def)

lemma NoiseTest_OnApplyNoise_passes: "NoiseTest_OnApplyNoise"
  by (simp add: NoiseTest_OnApplyNoise_def Apply_def SetCustomNoiseCallback_def
      OnApplyCustomNoise_def new_Noise_def list_all_iff)

text \<open>
  Claim C7: for a noise model of the Custom variant, once a callback \<open>f\<close> has been
  installed with \<open>SetCustomNoiseCallback\<close>, \<open>Apply x dt\<close> is \<open>f x dt\<close> for every
  \<open>x\<close> and \<open>dt\<close>; while no callback has been installed, \<open>Apply x dt\<close> is \<open>x\<close>; and
  with the test's callback, which doubles its input, \<open>Apply x dt\<close> is \<open>2 * x\<close> (so
  for the inputs 0 to 99 of the test).
\<close>

theorem Custom_Apply:
  assumes "noiseType n = CUSTOM"
  shows "Apply (SetCustomNoiseCallback f n) x dt = f x dt \<and>
         (customNoiseCallback n = None \<longrightarrow> Apply n x dt = x) \<and>
         Apply (SetCustomNoiseCallback OnApplyCustomNoise n) x dt = 2 * x"
  using assms by (simp add: Apply_def SetCustomNoiseCallback_def OnApplyCustomNoise_def)

theorem Custom_Apply_witness:
  "noiseType (new_Noise CUSTOM) = CUSTOM \<and>
   customNoiseCallback (new_Noise CUSTOM) = None \<and>
   Apply (new_Noise CUSTOM) 9 0.1 = 9 \<and>
   Apply (SetCustomNoiseCallback OnApplyCustomNoise (new_Noise CUSTOM)) 99 0 = 198"
proof -
  have h: "noiseType (new_Noise CUSTOM) = CUSTOM"
    by (simp add: new_Noise_def)
  have k: "customNoiseCallback (new_Noise CUSTOM) = None"
    by (simp add: new_Noise_def)
  show ?thesis
    using h k Custom_Apply [OF h, of OnApplyCustomNoise 9 "0.1"]
      Custom_Apply [OF h, of OnApplyCustomNoise 99 0]
    by simp
qed

subsection \<open>The Gaussian models\<close>

text \<open>\<open>std_round\<close> rounds a half away from zero, and to a nearest integer.\<close>

lemma std_round_half: "std_round (real_of_int k + 1 / 2) = (if 0 \<le> k then k + 1 else k)"
proof (cases "0 \<le> k")
  case True
  then have "0 \<le> real_of_int k + 1 / 2" by simp
  moreover have "\<lfloor>real_of_int k + 1 / 2 + 1 / 2\<rfloor> = k + 1"
    by (simp add: floor_eq_iff)
  ultimately show ?thesis using True by (simp add: std_round_def)
next
  case False
  then have "k \<le> -1" by simp
  then have "real_of_int k \<le> -1" by (metis of_int_le_iff of_int_minus of_int_1)
  then have "\<not> 0 \<le> real_of_int k + 1 / 2" by simp
  moreover have "\<lceil>real_of_int k + 1 / 2 - 1 / 2\<rceil> = k" by simp
  ultimately show ?thesis using False by (simp add: std_round_def)
qed

lemma std_round_nearest: "\<bar>real_of_int (std_round y) - y\<bar> \<le> 1 / 2"
proof (cases "0 \<le> y")
  case True
  have "\<bar>real_of_int \<lfloor>y + 1 / 2\<rfloor> - y\<bar> \<le> 1 / 2"
    by linarith
  then show ?thesis using True by (simp add: std_round_def)
next
  case False
  have "\<bar>real_of_int \<lceil>y - 1 / 2\<rceil> - y\<bar> \<le> 1 / 2"
    by linarith
  then show ?thesis using False by (simp add: std_round_def)
qed

text \<open>The model meets the ten expectations of the test's precision check.\<close>

lemma NoiseTest_precision_passes: "NoiseTest_ApplyGaussianQuantized_precision z0 z"
  by (simp add: NoiseTest_ApplyGaussianQuantized_precision_def GaussianNoiseModel_Apply_def
      GaussianNoiseModel_ApplyImpl_def quantized03_def new_GaussianNoiseModel_def NoiseSdf_def
      DblNormal_def std_round_def)

text \<open>
  Claim C5: for a GaussianQuantized model \<open>g\<close> with positive precision, \<open>Apply\<close> is
  the Gaussian result (what the Gaussian variant with the same parameters returns for
  the same draw: input plus draw plus bias) divided by the precision, rounded half
  away from zero, times the precision; with a precision that is not positive, \<open>Apply\<close>
  is the Gaussian variant's. For the model of the test's precision check (precision
  0.3, both means and both standard deviations 0), \<open>Apply\<close> at 0.32 and 0.28 is within
  1e-6 of 0.3 and at -12.92 and -12.88 within 1e-6 of -12.9, whatever the draws.
\<close>

theorem GaussianQuantized_Apply:
  assumes "noiseType g = GAUSSIAN_QUANTIZED"
  shows "(0 < Precision g \<longrightarrow>
            GaussianNoiseModel_Apply g z x dt =
              real_of_int
                (std_round (GaussianNoiseModel_Apply (g\<lparr>noiseType := GAUSSIAN\<rparr>) z x dt / Precision g))
              * Precision g) \<and>
         (Precision g \<le> 0 \<longrightarrow>
            GaussianNoiseModel_Apply g z x dt =
              GaussianNoiseModel_Apply (g\<lparr>noiseType := GAUSSIAN\<rparr>) z x dt) \<and>
         GaussianNoiseModel_Apply (g\<lparr>noiseType := GAUSSIAN\<rparr>) z x dt =
           x + DblNormal (Mean g) (StdDev g) z + Bias g \<and>
         std_round (real_of_int k + 1 / 2) = (if 0 \<le> k then k + 1 else k) \<and>
         \<bar>real_of_int (std_round y) - y\<bar> \<le> 1 / 2 \<and>
         \<bar>GaussianNoiseModel_Apply (quantized03 z0) z 0.32 dt - 0.3\<bar> \<le> 1 / 1000000 \<and>
         \<bar>GaussianNoiseModel_Apply (quantized03 z0) z 0.28 dt - 0.3\<bar> \<le> 1 / 1000000 \<and>
         \<bar>GaussianNoiseModel_Apply (quantized03 z0) z (- 12.92) dt - (- 12.9)\<bar> \<le> 1 / 1000000 \<and>
         \<bar>GaussianNoiseModel_Apply (quantized03 z0) z (- 12.88) dt - (- 12.9)\<bar> \<le> 1 / 1000000"
proof -
  have gauss: "GaussianNoiseModel_Apply (g\<lparr>noiseType := GAUSSIAN\<rparr>) z x dt =
      x + DblNormal (Mean g) (StdDev g) z + Bias g"
    by (simp add: GaussianNoiseModel_Apply_def GaussianNoiseModel_ApplyImpl_def)
  have pos: "0 < Precision g \<longrightarrow>
      GaussianNoiseModel_Apply g z x dt =
        real_of_int
          (std_round (GaussianNoiseModel_Apply (g\<lparr>noiseType := GAUSSIAN\<rparr>) z x dt / Precision g))
        * Precision g"
    using assms by (simp add: GaussianNoiseModel_Apply_def GaussianNoiseModel_ApplyImpl_def)
  have neg: "Precision g \<le> 0 \<longrightarrow>
      GaussianNoiseModel_Apply g z x dt =
        GaussianNoiseModel_Apply (g\<lparr>noiseType := GAUSSIAN\<rparr>) z x dt"
    using assms by (simp add: GaussianNoiseModel_Apply_def GaussianNoiseModel_ApplyImpl_def)
  have i1: "\<bar>GaussianNoiseModel_Apply (quantized03 z0) z 0.32 dt - 0.3\<bar> \<le> 1 / 1000000"
    and i2: "\<bar>GaussianNoiseModel_Apply (quantized03 z0) z 0.28 dt - 0.3\<bar> \<le> 1 / 1000000"
    and i3: "\<bar>GaussianNoiseModel_Apply (quantized03 z0) z (- 12.92) dt - (- 12.9)\<bar> \<le> 1 / 1000000"
    and i4: "\<bar>GaussianNoiseModel_Apply (quantized03 z0) z (- 12.88) dt - (- 12.9)\<bar> \<le> 1 / 1000000"
    by (simp_all add: GaussianNoiseModel_Apply_def GaussianNoiseModel_ApplyImpl_def
        quantized03_def new_GaussianNoiseModel_def NoiseSdf_def DblNormal_def std_round_def)
  show ?thesis
    by (intro conjI pos neg gauss std_round_half std_round_nearest i1 i2 i3 i4)
qed

text \<open>
  The theorem at the model of the precision check (positive precision) and at the
  model with precision 0.
\<close>

theorem GaussianQuantized_Apply_witness:
  "noiseType (quantized03 0) = GAUSSIAN_QUANTIZED \<and> 0 < Precision (quantized03 0) \<and>
   GaussianNoiseModel_Apply (quantized03 0) 0 (32 / 100) 0 = 3 / 10 \<and>
   std_round ((32 / 100) / (3 / 10)) = 1 \<and>
   noiseType (zero_precision 0) = GAUSSIAN_QUANTIZED \<and> Precision (zero_precision 0) \<le> 0 \<and>
   GaussianNoiseModel_Apply (zero_precision 0) 0 42 0 = 42"
proof -
  have h: "noiseType (quantized03 0) = GAUSSIAN_QUANTIZED"
    by (simp add: quantized03_def new_GaussianNoiseModel_def)
  have p: "0 < Precision (quantized03 0)"
    by (simp add: quantized03_def new_GaussianNoiseModel_def NoiseSdf_def)
  have h0: "noiseType (zero_precision 0) = GAUSSIAN_QUANTIZED"
    by (simp add: zero_precision_def new_GaussianNoiseModel_def)
  have p0: "Precision (zero_precision 0) \<le> 0"
    by (simp add: zero_precision_def new_GaussianNoiseModel_def NoiseSdf_def)
  note a = GaussianQuantized_Apply [OF h, of 0 "32 / 100" 0 0 0 0]
  note b = GaussianQuantized_Apply [OF h0, of 0 42 0 0 0 0]
  have a1: "GaussianNoiseModel_Apply (quantized03 0) 0 (32 / 100) 0 =
      real_of_int (std_round (GaussianNoiseModel_Apply ((quantized03 0)\<lparr>noiseType := GAUSSIAN\<rparr>) 0 (32 / 100) 0
        / Precision (quantized03 0))) * Precision (quantized03 0)"
    using a p by blast
  have a2: "GaussianNoiseModel_Apply ((quantized03 0)\<lparr>noiseType := GAUSSIAN\<rparr>) 0 (32 / 100) 0 = 32 / 100"
    using a by (simp add: quantized03_def new_GaussianNoiseModel_def NoiseSdf_def DblNormal_def)
  have pv: "Precision (quantized03 0) = 3 / 10"
    by (simp add: quantized03_def new_GaussianNoiseModel_def NoiseSdf_def)
  have r: "std_round ((32 / 100) / (3 / 10)) = 1"
    by (simp add: std_round_def)
  have b1: "GaussianNoiseModel_Apply (zero_precision 0) 0 42 0 =
      GaussianNoiseModel_Apply ((zero_precision 0)\<lparr>noiseType := GAUSSIAN\<rparr>) 0 42 0"
    using b p0 by blast
  have b2: "GaussianNoiseModel_Apply ((zero_precision 0)\<lparr>noiseType := GAUSSIAN\<rparr>) 0 42 0 = 42"
    using b by (simp add: zero_precision_def new_GaussianNoiseModel_def NoiseSdf_def DblNormal_def)
  have "GaussianNoiseModel_Apply (quantized03 0) 0 (32 / 100) 0 =
      real_of_int (std_round ((32 / 100) / (3 / 10))) * (3 / 10)"
    using a1 by (simp only: a2 pv)
  then have c1: "GaussianNoiseModel_Apply (quantized03 0) 0 (32 / 100) 0 = 3 / 10"
    by (simp only: r)
  have c2: "GaussianNoiseModel_Apply (zero_precision 0) 0 42 0 = 42"
    by (subst b1) (rule b2)
  show ?thesis
    by (intro conjI h p c1 r h0 p0 c2)
qed

text \<open>
  Claim C6: a Gaussian model built from a descriptor whose standard deviation and
  bias standard deviation are 0 returns, for every input \<open>x\<close>, exactly
  \<open>x + mean + bias_mean\<close> (so within 1e-6 of it), and the result is the same for every
  draw and every time step: repeated calls return the same value.
\<close>

theorem Gaussian_Apply_zero_variance:
  assumes "stddev sdf = 0" and "bias_stddev sdf = 0"
  shows "GaussianNoiseModel_Apply (new_GaussianNoiseModel GAUSSIAN z0 sdf) z x dt
           = x + mean sdf + bias_mean sdf \<and>
         \<bar>GaussianNoiseModel_Apply (new_GaussianNoiseModel GAUSSIAN z0 sdf) z x dt
            - (x + mean sdf + bias_mean sdf)\<bar> \<le> 1 / 1000000 \<and>
         GaussianNoiseModel_Apply (new_GaussianNoiseModel GAUSSIAN z0 sdf) z x dt
           = GaussianNoiseModel_Apply (new_GaussianNoiseModel GAUSSIAN z0 sdf) z' x dt'"
  using assms
  by (simp add: GaussianNoiseModel_Apply_def GaussianNoiseModel_ApplyImpl_def
      new_GaussianNoiseModel_def DblNormal_def)

text \<open>The theorem at mean 10 and bias mean 100, for two different draws.\<close>

theorem Gaussian_Apply_zero_variance_witness:
  "stddev sdf_exact_bias = 0 \<and> bias_stddev sdf_exact_bias = 0 \<and>
   GaussianNoiseModel_Apply (new_GaussianNoiseModel GAUSSIAN 3 sdf_exact_bias) 5 42 0 = 152 \<and>
   GaussianNoiseModel_Apply (new_GaussianNoiseModel GAUSSIAN 3 sdf_exact_bias) (- 7) 42 0 = 152"
proof -
  have s: "stddev sdf_exact_bias = 0" and b: "bias_stddev sdf_exact_bias = 0"
    by (simp_all add: sdf_exact_bias_def NoiseSdf_def)
  have m: "mean sdf_exact_bias = 10" and bm: "bias_mean sdf_exact_bias = 100"
    by (simp_all add: sdf_exact_bias_def NoiseSdf_def)
  have "GaussianNoiseModel_Apply (new_GaussianNoiseModel GAUSSIAN 3 sdf_exact_bias) 5 42 0 = 152"
    using Gaussian_Apply_zero_variance [OF s b, of 3 5 42 0] by (simp add: m bm)
  moreover
  have "GaussianNoiseModel_Apply (new_GaussianNoiseModel GAUSSIAN 3 sdf_exact_bias) (- 7) 42 0 = 152"
    using Gaussian_Apply_zero_variance [OF s b, of 3 "- 7" 42 0] by (simp add: m bm)
  ultimately show ?thesis using s b by blast
qed

subsection \<open>The factory\<close>

text \<open>
  The model meets the expectations of \<open>NoiseTest.Types\<close>, and the model the factory
  builds for the descriptor of the test's precision check is the one whose \<open>Apply\<close>
  meets that check.
\<close>

lemma NoiseTest_Types_passes: "NoiseTest_Types z0"
  by (simp add: NoiseTest_Types_def NewNoiseModel_def NoiseSdf_def Type_of_def new_Noise_def
      new_GaussianNoiseModel_def)

lemma NewNoiseModel_precision_check:
  "NewNoiseModel z0 (NoiseSdf ''gaussian_quantized'' 0 0 0 0 0.3) [] = GaussianObj (quantized03 z0)"
  by (simp add: NewNoiseModel_def NoiseSdf_def quantized03_def)

text \<open>
  Claim C2 as stated, that the model built for every descriptor with the type string
  \<open>gaussian_quantized\<close> carries the GaussianQuantized tag, fails at the descriptor of
  \<open>NoiseTest.Types\<close> (lines 120-123: every number 0, no hint): there the tag is
  \<open>GAUSSIAN\<close>, as the test expects.
\<close>

theorem NewNoiseModel_gaussian_quantized_tag_counterexample:
  "type_str (NoiseSdf ''gaussian_quantized'' 0 0 0 0 0) = ''gaussian_quantized'' \<and>
   Type_of (NewNoiseModel 0 (NoiseSdf ''gaussian_quantized'' 0 0 0 0 0) []) = Some GAUSSIAN \<and>
   Type_of (NewNoiseModel 0 (NoiseSdf ''gaussian_quantized'' 0 0 0 0 0) [])
     \<noteq> Some GAUSSIAN_QUANTIZED"
  by (simp add: NewNoiseModel_def NoiseSdf_def Type_of_def new_GaussianNoiseModel_def)

text \<open>
  Claim C2, amended: for every noise descriptor whose type string is
  \<open>gaussian_quantized\<close>, the factory builds a Gaussian model that keeps the
  descriptor's precision; its tag is GaussianQuantized unless the precision is 0,
  where it is \<open>GAUSSIAN\<close>.
\<close>

theorem NewNoiseModel_gaussian_quantized:
  assumes "type_str sdf = ''gaussian_quantized''"
  shows "\<exists>g. NewNoiseModel z0 sdf k = GaussianObj g \<and>
           Precision g = precision sdf \<and>
           noiseType g = (if precision sdf = 0 then GAUSSIAN else GAUSSIAN_QUANTIZED)"
  using assms by (simp add: NewNoiseModel_def new_GaussianNoiseModel_def)

text \<open>The theorem at precision 0.3 and at precision 0.\<close>

theorem NewNoiseModel_gaussian_quantized_witness:
  "type_str (NoiseSdf ''gaussian_quantized'' 0 0 0 0 0.3) = ''gaussian_quantized'' \<and>
   (\<exists>g. NewNoiseModel 0 (NoiseSdf ''gaussian_quantized'' 0 0 0 0 0.3) [] = GaussianObj g \<and>
      Precision g = 0.3 \<and> noiseType g = GAUSSIAN_QUANTIZED) \<and>
   type_str (NoiseSdf ''gaussian_quantized'' 0 0 0 0 0) = ''gaussian_quantized'' \<and>
   (\<exists>g. NewNoiseModel 0 (NoiseSdf ''gaussian_quantized'' 0 0 0 0 0) [] = GaussianObj g \<and>
      Precision g = 0 \<and> noiseType g = GAUSSIAN)"
proof -
  have h: "type_str (NoiseSdf ''gaussian_quantized'' 0 0 0 0 0.3) = ''gaussian_quantized''"
    and h0: "type_str (NoiseSdf ''gaussian_quantized'' 0 0 0 0 0) = ''gaussian_quantized''"
    by (simp_all add: NoiseSdf_def)
  have p: "precision (NoiseSdf ''gaussian_quantized'' 0 0 0 0 0.3) = 0.3"
    and p0: "precision (NoiseSdf ''gaussian_quantized'' 0 0 0 0 0) = 0"
    by (simp_all add: NoiseSdf_def)
  show ?thesis
    using h h0 NewNoiseModel_gaussian_quantized [OF h, of 0 "[]"]
      NewNoiseModel_gaussian_quantized [OF h0, of 0 "[]"]
    by (simp add: p p0)
qed

subsection \<open>Print\<close>

lemma decimal_digit: "n < 10 \<Longrightarrow> decimal n = [digit n]"
  by simp

lemma decimal_1: "decimal 1 = ''1''"
  by (simp add: digit_def)

lemma decimal_42: "decimal 42 = ''42''"
  by (simp add: digit_def)

text \<open>
  Claim C9: \<open>Print\<close> of the base class, which every variant without a \<open>Print\<close> of its
  own uses, writes exactly the message with the integer value of the model's tag in
  the brackets; for a Custom model, whose tag has the value 1, it writes \<open>type[1]\<close>.
\<close>

theorem Print_unspecialized:
  "Print tagValue n out =
     out @ ''Noise with type['' @ decimal (tagValue (noiseType n))
         @ ''] does not have an overloaded Print function. No more information is available.'' \<and>
   (tagValue CUSTOM = 1 \<longrightarrow>
      Print tagValue (new_Noise CUSTOM) [] =
        ''Noise with type[1] does not have an overloaded Print function. No more information is available.'')"
  by (simp add: Print_def new_Noise_def digit_def)

text \<open>The theorem at a numbering of the tags that gives \<open>CUSTOM\<close> the value 1.\<close>

theorem Print_unspecialized_witness:
  "tag_order CUSTOM = 1 \<and>
   Print tag_order (new_Noise CUSTOM) [] =
     ''Noise with type[1] does not have an overloaded Print function. No more information is available.''"
proof -
  have h: "tag_order CUSTOM = 1" by (simp add: tag_order_def)
  show ?thesis using h Print_unspecialized [of tag_order "new_Noise CUSTOM" "[]"] by blast
qed

section \<open>Properties of the sensor manager\<close>

text \<open>
  The invariant holds of a new manager and is kept by every call; the next unused id
  never decreases; every id a sequence of calls returns is at least the next unused
  id at its start.
\<close>

lemma registered_below_new: "registered_below new_Manager"
  by (simp add: registered_below_def new_Manager_def NO_SENSOR_def)

lemma registered_below_AddSensor:
  "registered_below m \<Longrightarrow> registered_below (snd (Manager_AddSensor sensor m))"
  by (cases sensor) (auto simp: registered_below_def Manager_AddSensor_def less_Suc_eq)

lemma registered_below_Remove:
  "registered_below m \<Longrightarrow> registered_below (snd (Manager_Remove i m))"
  by (auto simp: registered_below_def Manager_Remove_def split: option.splits)

lemma nextId_AddSensor: "nextId m \<le> nextId (snd (Manager_AddSensor sensor m))"
  by (cases sensor) (simp_all add: Manager_AddSensor_def)

lemma nextId_Remove: "nextId (snd (Manager_Remove i m)) = nextId m"
  by (simp add: Manager_Remove_def split: option.splits)

lemma registered_below_after:
  "registered_below m \<Longrightarrow> registered_below (after ops m)"
proof (induction ops m rule: after.induct)
  case (1 m)
  then show ?case by simp
next
  case (2 sensor ops m)
  then show ?case by (simp add: registered_below_AddSensor)
next
  case (3 i ops m)
  then show ?case by (simp add: registered_below_Remove)
qed

lemma added_ids_lower: "i \<in> set (added_ids ops m) \<Longrightarrow> nextId m \<le> i"
proof (induction ops m rule: added_ids.induct)
  case (1 m)
  then show ?case by simp
next
  case (2 ops m)
  then show ?case by (simp add: Manager_AddSensor_def)
next
  case (3 s ops m)
  then show ?case by (auto simp: Manager_AddSensor_def dest: Suc_leD)
next
  case (4 j ops m)
  then show ?case by (simp add: nextId_Remove)
qed

lemma added_ids_distinct: "distinct (added_ids ops m)"
proof (induction ops m rule: added_ids.induct)
  case (3 s ops m)
  have "nextId m \<notin> set (added_ids ops (snd (Manager_AddSensor (Some s) m)))"
  proof
    assume "nextId m \<in> set (added_ids ops (snd (Manager_AddSensor (Some s) m)))"
    then have "nextId (snd (Manager_AddSensor (Some s) m)) \<le> nextId m"
      by (rule added_ids_lower)
    then show False by (simp add: Manager_AddSensor_def)
  qed
  with 3 show ?case by (simp add: Manager_AddSensor_def)
qed simp_all

lemma added_ids_append:
  "added_ids (ops1 @ ops2) m = added_ids ops1 m @ added_ids ops2 (after ops1 m)"
  by (induction ops1 m rule: added_ids.induct) simp_all

lemma removed_not_added:
  assumes "registered_below m" and "fst (Manager_Remove i m)"
  shows "i \<notin> set (added_ids ops (snd (Manager_Remove i m)))"
proof
  assume "i \<in> set (added_ids ops (snd (Manager_Remove i m)))"
  then have "nextId (snd (Manager_Remove i m)) \<le> i" by (rule added_ids_lower)
  then have "nextId m \<le> i" by (simp add: nextId_Remove)
  moreover from assms(2) have "sensors m i \<noteq> None"
    by (auto simp: Manager_Remove_def split: option.splits)
  with assms(1) have "i < nextId m" by (simp add: registered_below_def)
  ultimately show False by simp
qed

text \<open>
  Claim C4: \<open>AddSensor\<close> returns \<open>NO_SENSOR\<close> for a null sensor. Over every sequence of
  calls of \<open>AddSensor\<close> and \<open>Remove\<close> on a new manager, the ids returned by the calls
  that were given a sensor are pairwise distinct and none is \<open>NO_SENSOR\<close>; and after
  a \<open>Remove\<close> of an id that succeeded, no later \<open>AddSensor\<close> returns that id.
\<close>

theorem Manager_ids:
  "fst (Manager_AddSensor None m) = NO_SENSOR \<and>
   distinct (added_ids ops new_Manager) \<and>
   NO_SENSOR \<notin> set (added_ids ops new_Manager) \<and>
   (fst (Manager_Remove i (after ops1 new_Manager)) \<longrightarrow>
      i \<notin> set (added_ids ops2 (snd (Manager_Remove i (after ops1 new_Manager)))))"
proof -
  have "NO_SENSOR \<notin> set (added_ids ops new_Manager)"
  proof
    assume "NO_SENSOR \<in> set (added_ids ops new_Manager)"
    then have "nextId new_Manager \<le> NO_SENSOR" by (rule added_ids_lower)
    then show False by (simp add: new_Manager_def NO_SENSOR_def)
  qed
  moreover have "registered_below (after ops1 new_Manager)"
    by (rule registered_below_after [OF registered_below_new])
  ultimately show ?thesis
    by (simp add: added_ids_distinct removed_not_added) (simp add: Manager_AddSensor_def)
qed

text \<open>
  The theorem at a sequence that adds two sensors, removes the first, and adds two
  more.
\<close>

theorem Manager_ids_witness:
  "added_ids ops_before new_Manager = [1, 2] \<and>
   fst (Manager_Remove 1 (after ops_before new_Manager)) \<and>
   added_ids ops_after (snd (Manager_Remove 1 (after ops_before new_Manager))) = [3, 4] \<and>
   1 \<notin> set (added_ids ops_after (snd (Manager_Remove 1 (after ops_before new_Manager))))"
proof -
  have r: "fst (Manager_Remove 1 (after ops_before new_Manager))"
    by (simp add: ops_before_def new_Manager_def Manager_AddSensor_def Manager_Remove_def
        NO_SENSOR_def)
  have "1 \<notin> set (added_ids ops_after (snd (Manager_Remove 1 (after ops_before new_Manager))))"
    using Manager_ids [of new_Manager "[]" 1 ops_before ops_after] r by blast
  moreover have "added_ids ops_before new_Manager = [1, 2]"
    by (simp add: ops_before_def new_Manager_def Manager_AddSensor_def NO_SENSOR_def)
  moreover
  have "added_ids ops_after (snd (Manager_Remove 1 (after ops_before new_Manager))) = [3, 4]"
    by (simp add: ops_before_def ops_after_def new_Manager_def Manager_AddSensor_def
        Manager_Remove_def NO_SENSOR_def)
  ultimately show ?thesis using r by blast
qed

text \<open>
  Claim C3: for a registered sensor with a positive update rate and a last update
  time \<open>l\<close>, \<open>RunOnce\<close> at time \<open>t\<close>, not forced, calls the sensor's \<open>Update\<close> with
  \<open>t\<close> if and only if \<open>t - l\<close> is at least the period, and otherwise leaves the
  trace of calls as it was; a sensor whose update rate is not positive is updated by
  every \<open>RunOnce\<close>, forced or not.
\<close>

theorem RunOnce_rate_gating:
  assumes "sensors m i = Some s"
  shows "(0 < updateRate s \<and> lastUpdateTime s = Some l \<longrightarrow>
            (map_option updateCalls (sensors (Manager_RunOnce t False m) i)
               = Some (updateCalls s @ [t])) = (1 / updateRate s \<le> t - l) \<and>
            (sensors (Manager_RunOnce t False m) i = Some s) = (t - l < 1 / updateRate s)) \<and>
         (updateRate s \<le> 0 \<longrightarrow>
            map_option updateCalls (sensors (Manager_RunOnce t force m) i)
              = Some (updateCalls s @ [t]))"
proof -
  have run: "sensors (Manager_RunOnce t f m) i = Some (step t f s)" for f
    using assms by (simp add: Manager_RunOnce_def)
  have called: "due t f s \<Longrightarrow> updateCalls (step t f s) = updateCalls s @ [t]" for f
    by (simp add: step_def Sensor_Update_def)
  have left: "\<not> due t f s \<Longrightarrow> step t f s = s" for f
    by (simp add: step_def)
  have differs: "due t f s \<Longrightarrow> step t f s \<noteq> s" for f
  proof
    assume "due t f s" and "step t f s = s"
    then have "updateCalls s = updateCalls s @ [t]" using called [of f] by simp
    then show False by simp
  qed
  have gate: "due t False s = (1 / updateRate s \<le> t - l)"
    if "0 < updateRate s" and "lastUpdateTime s = Some l"
    using that by (simp add: due_def)
  have fast: "due t force s" if "updateRate s \<le> 0"
    using that by (simp add: due_def)
  show ?thesis
  proof (intro conjI impI)
    assume h: "0 < updateRate s \<and> lastUpdateTime s = Some l"
    then have g: "due t False s = (1 / updateRate s \<le> t - l)" using gate by blast
    show "(map_option updateCalls (sensors (Manager_RunOnce t False m) i)
             = Some (updateCalls s @ [t])) = (1 / updateRate s \<le> t - l)"
      using g called [of False] left [of False] by (cases "due t False s") (simp_all add: run)
    show "(sensors (Manager_RunOnce t False m) i = Some s) = (t - l < 1 / updateRate s)"
      using g differs [of False] left [of False]
      by (cases "due t False s") (simp_all add: run not_le)
  next
    assume "updateRate s \<le> 0"
    then show "map_option updateCalls (sensors (Manager_RunOnce t force m) i)
        = Some (updateCalls s @ [t])"
      using fast called [of force] by (simp add: run)
  qed
qed

text \<open>
  The theorem at a sensor of 10 Hz last updated at time 1: not updated at time 1.05,
  updated at time 1.1; and at a sensor of rate 0, updated at time 1.05.
\<close>

theorem RunOnce_rate_gating_witness:
  "sensors manager10 1 = Some (sensor10\<lparr>sensorId := 1\<rparr>) \<and>
   sensors (Manager_RunOnce (105 / 100) False manager10) 1 = Some (sensor10\<lparr>sensorId := 1\<rparr>) \<and>
   map_option updateCalls (sensors (Manager_RunOnce (11 / 10) False manager10) 1)
     = Some [11 / 10] \<and>
   sensors manager_fast 1 = Some (sensor_fast\<lparr>sensorId := 1\<rparr>) \<and>
   map_option updateCalls (sensors (Manager_RunOnce (105 / 100) False manager_fast) 1)
     = Some [105 / 100]"
proof -
  let ?s = "sensor10\<lparr>sensorId := 1\<rparr>"
  let ?f = "sensor_fast\<lparr>sensorId := 1\<rparr>"
  have reg: "sensors manager10 1 = Some ?s"
    by (simp add: manager10_def Manager_AddSensor_def new_Manager_def)
  have regf: "sensors manager_fast 1 = Some ?f"
    by (simp add: manager_fast_def Manager_AddSensor_def new_Manager_def)
  have s: "0 < updateRate ?s \<and> lastUpdateTime ?s = Some 1"
    and early: "105 / 100 - 1 < 1 / updateRate ?s"
    and late: "1 / updateRate ?s \<le> 11 / 10 - 1"
    and calls: "updateCalls ?s @ [11 / 10] = [11 / 10]"
    by (simp_all add: sensor10_def sensor0m_def)
  have f: "updateRate ?f \<le> 0"
    and callsf: "updateCalls ?f @ [105 / 100] = [105 / 100]"
    by (simp_all add: sensor_fast_def sensor0m_def)
  have w1: "sensors (Manager_RunOnce (105 / 100) False manager10) 1 = Some ?s"
    using RunOnce_rate_gating [OF reg, of 1 "105 / 100" False] s early by blast
  have "map_option updateCalls (sensors (Manager_RunOnce (11 / 10) False manager10) 1)
      = Some (updateCalls ?s @ [11 / 10])"
    using RunOnce_rate_gating [OF reg, of 1 "11 / 10" False] s late by blast
  then have w2: "map_option updateCalls (sensors (Manager_RunOnce (11 / 10) False manager10) 1)
      = Some [11 / 10]"
    by (simp only: calls)
  have "map_option updateCalls (sensors (Manager_RunOnce (105 / 100) False manager_fast) 1)
      = Some (updateCalls ?f @ [105 / 100])"
    using RunOnce_rate_gating [OF regf, of 1 "105 / 100" False] f by blast
  then have w3: "map_option updateCalls (sensors (Manager_RunOnce (105 / 100) False manager_fast) 1)
      = Some [105 / 100]"
    by (simp only: callsf)
  show ?thesis by (intro conjI reg regf w1 w2 w3)
qed

end
